theory Spec2Isabelle
  imports Complex_Main
begin

section \<open>Python floats\<close>

text \<open>
  The module \<^verbatim>\<open>nonlinear_solvers/solvers.py\<close> holds three functions over Python
  floats, which are IEEE 754 binary64 numbers. A float is modelled as a finite
  value, one of the two infinities, or NaN. The arithmetic is that of Python: a
  result whose magnitude reaches \<open>2 ^ 1024 - 2 ^ 970\<close> overflows to an infinity, a
  result of magnitude at most \<open>2 ^ -1075\<close> underflows to zero, invalid operations
  give NaN, and every ordered comparison with NaN is false. Two things are
  idealised: a finite result between the two thresholds is kept exact instead of
  being rounded to 53 bits, and the two zeros are one value (Python's comparisons
  do not tell them apart, and a division by either raises). The numeric arguments
  are taken to be floats and the caller's \<^verbatim>\<open>f\<close> and \<^verbatim>\<open>df\<close> to be total
  functions from floats to floats. The iteration cap is a Python integer.
\<close>

datatype pyfloat = Fin real | PInf | NInf | NaN

definition overflow_threshold :: real where
  "overflow_threshold = 2 ^ 1024 - 2 ^ 970"

definition underflow_threshold :: real where
  "underflow_threshold = 1 / 2 ^ 1075"

definition to_float :: "real \<Rightarrow> pyfloat" where
  "to_float r =
     (if r \<ge> overflow_threshold then PInf
      else if r \<le> - overflow_threshold then NInf
      else if \<bar>r\<bar> \<le> underflow_threshold then Fin 0
      else Fin r)"

fun fneg :: "pyfloat \<Rightarrow> pyfloat" where
  "fneg (Fin a) = Fin (- a)"
| "fneg PInf = NInf"
| "fneg NInf = PInf"
| "fneg NaN = NaN"

fun fadd :: "pyfloat \<Rightarrow> pyfloat \<Rightarrow> pyfloat" where
  "fadd NaN y = NaN"
| "fadd x NaN = NaN"
| "fadd (Fin a) (Fin b) = to_float (a + b)"
| "fadd PInf NInf = NaN"
| "fadd NInf PInf = NaN"
| "fadd PInf y = PInf"
| "fadd x PInf = PInf"
| "fadd NInf y = NInf"
| "fadd x NInf = NInf"

definition fsub :: "pyfloat \<Rightarrow> pyfloat \<Rightarrow> pyfloat" where
  "fsub x y = fadd x (fneg y)"

fun fmul :: "pyfloat \<Rightarrow> pyfloat \<Rightarrow> pyfloat" where
  "fmul NaN y = NaN"
| "fmul x NaN = NaN"
| "fmul (Fin a) (Fin b) = to_float (a * b)"
| "fmul (Fin a) PInf = (if a = 0 then NaN else if a > 0 then PInf else NInf)"
| "fmul (Fin a) NInf = (if a = 0 then NaN else if a > 0 then NInf else PInf)"
| "fmul PInf (Fin b) = (if b = 0 then NaN else if b > 0 then PInf else NInf)"
| "fmul NInf (Fin b) = (if b = 0 then NaN else if b > 0 then NInf else PInf)"
| "fmul PInf PInf = PInf"
| "fmul PInf NInf = NInf"
| "fmul NInf PInf = NInf"
| "fmul NInf NInf = PInf"

text \<open>
  The quotient of two floats whose divisor is not zero. Python raises
  \<^verbatim>\<open>ZeroDivisionError\<close> on a zero divisor, whatever the dividend: the solvers
  below test the divisor before they use \<open>fdiv\<close>.
\<close>

fun fdiv :: "pyfloat \<Rightarrow> pyfloat \<Rightarrow> pyfloat" where
  "fdiv NaN y = NaN"
| "fdiv x NaN = NaN"
| "fdiv (Fin a) (Fin b) = to_float (a / b)"
| "fdiv (Fin a) PInf = Fin 0"
| "fdiv (Fin a) NInf = Fin 0"
| "fdiv PInf (Fin b) = (if b < 0 then NInf else PInf)"
| "fdiv NInf (Fin b) = (if b < 0 then PInf else NInf)"
| "fdiv PInf PInf = NaN"
| "fdiv PInf NInf = NaN"
| "fdiv NInf PInf = NaN"
| "fdiv NInf NInf = NaN"

fun fabs :: "pyfloat \<Rightarrow> pyfloat" where
  "fabs (Fin a) = Fin \<bar>a\<bar>"
| "fabs PInf = PInf"
| "fabs NInf = PInf"
| "fabs NaN = NaN"

text \<open>The comparisons \<^verbatim>\<open>x > y\<close> and \<^verbatim>\<open>x <= y\<close>: both are false on NaN.\<close>

fun fgt :: "pyfloat \<Rightarrow> pyfloat \<Rightarrow> bool" where
  "fgt NaN y = False"
| "fgt x NaN = False"
| "fgt (Fin a) (Fin b) = (a > b)"
| "fgt PInf PInf = False"
| "fgt PInf y = True"
| "fgt x PInf = False"
| "fgt NInf y = False"
| "fgt x NInf = True"

fun fle :: "pyfloat \<Rightarrow> pyfloat \<Rightarrow> bool" where
  "fle NaN y = False"
| "fle x NaN = False"
| "fle (Fin a) (Fin b) = (a \<le> b)"
| "fle NInf y = True"
| "fle x PInf = True"
| "fle PInf y = False"
| "fle x NInf = False"

section \<open>Nonlinear solvers: Newton-Raphson, bisection and their composition\<close>

text \<open>
  Every \<^verbatim>\<open>raise\<close> of the source, and the division by zero of
  \<^verbatim>\<open>f(x)/df(x)\<close>, is a value of the type \<open>error\<close>.
\<close>

subsection \<open>Errors\<close>

datatype error =
    ConvergenceError    \<comment> \<open>\<^verbatim>\<open>class ConvergenceError(Exception)\<close>\<close>
  | ValueError          \<comment> \<open>\<^verbatim>\<open>raise ValueError\<close> of the bracket check\<close>
  | ZeroDivisionError   \<comment> \<open>\<^verbatim>\<open>f(x)/df(x)\<close> with \<^verbatim>\<open>df(x) == 0\<close>\<close>

subsection \<open>Newton-Raphson\<close>

text \<open>
  The \<^verbatim>\<open>while\<close> loop of \<^verbatim>\<open>newton_raphson\<close>, started in the state
  \<open>(x, new_x, current_its)\<close>. The recursive call is reached only with
  \<open>current_its \<le> max_its\<close>, and the counter grows by one.
\<close>

function newton_loop ::
  "(pyfloat \<Rightarrow> pyfloat) \<Rightarrow> (pyfloat \<Rightarrow> pyfloat) \<Rightarrow> pyfloat \<Rightarrow> int \<Rightarrow> pyfloat \<Rightarrow> pyfloat \<Rightarrow> int
     \<Rightarrow> error + pyfloat"
where
  "newton_loop f df eps max_its x new_x current_its =
     (if fgt (fabs (fsub x new_x)) eps then
        (if df new_x = Fin 0 then Inl ZeroDivisionError
         else if current_its > max_its then Inl ConvergenceError
         else newton_loop f df eps max_its new_x (fsub new_x (fdiv (f new_x) (df new_x)))
                (current_its + 1))
      else Inr new_x)"
  by pat_completeness auto
termination
  by (relation "measure (\<lambda>(f, df, eps, max_its, x, new_x, current_its).
                  nat (max_its + 1 - current_its))") auto

declare newton_loop.simps [simp del]

definition newton_raphson ::
  "(pyfloat \<Rightarrow> pyfloat) \<Rightarrow> (pyfloat \<Rightarrow> pyfloat) \<Rightarrow> pyfloat \<Rightarrow> pyfloat \<Rightarrow> int \<Rightarrow> error + pyfloat"
where
  "newton_raphson f df x_0 eps max_its =
     (if df x_0 = Fin 0 then Inl ZeroDivisionError
      else newton_loop f df eps max_its x_0 (fsub x_0 (fdiv (f x_0) (df x_0))) 1)"

subsection \<open>Bisection\<close>

text \<open>
  One execution of the loop body of \<^verbatim>\<open>bisection\<close>: the bracket check, the
  midpoint, the replacement of one bound, the iteration cap and the counter.
\<close>

definition bisection_body ::
  "(pyfloat \<Rightarrow> pyfloat) \<Rightarrow> int \<Rightarrow> pyfloat \<Rightarrow> pyfloat \<Rightarrow> int
     \<Rightarrow> error + (pyfloat \<times> pyfloat \<times> pyfloat \<times> int)"
where
  "bisection_body f max_its x_l x_r current_its =
     (if fgt (fmul (f x_l) (f x_r)) (Fin 0) then Inl ValueError
      else
        (let new_x = fdiv (fadd x_r x_l) (Fin 2);
             (x_l', x_r') = (if fgt (fmul (f new_x) (f x_l)) (Fin 0) then (new_x, x_r)
                             else (x_l, new_x))
         in if current_its > max_its then Inl ConvergenceError
            else Inr (x_l', x_r', new_x, current_its + 1)))"

function bisection_loop ::
  "(pyfloat \<Rightarrow> pyfloat) \<Rightarrow> pyfloat \<Rightarrow> int \<Rightarrow> pyfloat \<Rightarrow> pyfloat \<Rightarrow> pyfloat \<Rightarrow> int
     \<Rightarrow> error + pyfloat"
where
  "bisection_loop f eps max_its x_l x_r new_x current_its =
     (if fgt (fabs (f new_x)) eps then
        (case bisection_body f max_its x_l x_r current_its of
           Inl e \<Rightarrow> Inl e
         | Inr (x_l', x_r', new_x', current_its') \<Rightarrow>
             bisection_loop f eps max_its x_l' x_r' new_x' current_its')
      else Inr new_x)"
  by pat_completeness auto
termination
  by (relation "measure (\<lambda>(f, eps, max_its, x_l, x_r, new_x, current_its).
                  nat (max_its + 1 - current_its))")
     (auto simp: bisection_body_def Let_def split: if_splits)

declare bisection_loop.simps [simp del]

definition bisection ::
  "(pyfloat \<Rightarrow> pyfloat) \<Rightarrow> pyfloat \<Rightarrow> pyfloat \<Rightarrow> pyfloat \<Rightarrow> int \<Rightarrow> error + pyfloat"
where
  "bisection f x_0 x_1 eps max_its = bisection_loop f eps max_its x_0 x_1 x_0 0"

subsection \<open>The composite solver\<close>

text \<open>
  \<^verbatim>\<open>solve\<close> has a \<^verbatim>\<open>return\<close> only in its \<^verbatim>\<open>except ConvergenceError\<close>
  handler, so the value of a normal return is a \<^typ>\<open>pyfloat option\<close>: \<open>None\<close> is
  Python's \<^verbatim>\<open>None\<close>. Every other exception of \<^verbatim>\<open>newton_raphson\<close> passes
  through the \<^verbatim>\<open>try\<close>.
\<close>

definition solve ::
  "(pyfloat \<Rightarrow> pyfloat) \<Rightarrow> (pyfloat \<Rightarrow> pyfloat) \<Rightarrow> pyfloat \<Rightarrow> pyfloat \<Rightarrow> pyfloat \<Rightarrow> int \<Rightarrow> int
     \<Rightarrow> error + pyfloat option"
where
  "solve f df x_0 x_1 eps max_its_n max_its_b =
     (case newton_raphson f df x_0 eps max_its_n of
        Inr r \<Rightarrow> Inr None
      | Inl ConvergenceError \<Rightarrow>
          (case bisection f x_0 x_1 eps max_its_b of
             Inl e \<Rightarrow> Inl e
           | Inr r \<Rightarrow> Inr (Some r))
      | Inl e \<Rightarrow> Inl e)"

subsection \<open>Iterates\<close>

text \<open>
  One Newton update, the expression \<^verbatim>\<open>x - f(x)/df(x)\<close> that the source
  writes twice; \<open>(newton_step f df ^^ n) x_0\<close> is the \<open>n\<close>-th Newton iterate.
\<close>

definition newton_step :: "(pyfloat \<Rightarrow> pyfloat) \<Rightarrow> (pyfloat \<Rightarrow> pyfloat) \<Rightarrow> pyfloat \<Rightarrow> pyfloat" where
  "newton_step f df x = fsub x (fdiv (f x) (df x))"

text \<open>
  The state \<open>(x_l, x_r, new_x, current_its)\<close> of the bisection loop after \<open>n\<close>
  completed iterations, \<open>None\<close> when the loop has left or raised before.
\<close>

fun bisection_after ::
  "(pyfloat \<Rightarrow> pyfloat) \<Rightarrow> pyfloat \<Rightarrow> int \<Rightarrow> nat \<Rightarrow> pyfloat \<times> pyfloat \<times> pyfloat \<times> int \<Rightarrow>
     (pyfloat \<times> pyfloat \<times> pyfloat \<times> int) option"
where
  "bisection_after f eps max_its 0 s = Some s"
| "bisection_after f eps max_its (Suc n) (x_l, x_r, new_x, current_its) =
     (if fgt (fabs (f new_x)) eps then
        (case bisection_body f max_its x_l x_r current_its of
           Inl e \<Rightarrow> None
         | Inr s' \<Rightarrow> bisection_after f eps max_its n s')
      else None)"




subsection \<open>Signs of floats\<close>

definition is_pos :: "pyfloat \<Rightarrow> bool" where
  "is_pos v = fgt v (Fin 0)"

definition is_neg :: "pyfloat \<Rightarrow> bool" where
  "is_neg v = fgt (Fin 0) v"


text \<open>
  A value whose products with values of its kind have the sign that the factors
  announce: it is not NaN, and if it is finite and not zero its magnitude is at
  least \<open>2 ^ -537\<close>, so that a product of two such values cannot underflow to
  zero.
\<close>

fun sign_safe :: "pyfloat \<Rightarrow> bool" where
  "sign_safe (Fin a) = (a = 0 \<or> 1 / 2 ^ 537 \<le> \<bar>a\<bar>)"
| "sign_safe PInf = True"
| "sign_safe NInf = True"
| "sign_safe NaN = False"

subsection \<open>Counting calls and iterations\<close>

text \<open>
  The same three functions with a ghost record threaded through them: the number of
  calls of \<^verbatim>\<open>f\<close>, of \<^verbatim>\<open>df\<close>, and of entries into the loop body. The
  counters are returned on every path, also with an error.
\<close>

record counts =
  f_calls :: nat
  df_calls :: nat
  loop_its :: nat

definition call_f :: "counts \<Rightarrow> counts" where
  "call_f c = c\<lparr>f_calls := f_calls c + 1\<rparr>"

definition call_df :: "counts \<Rightarrow> counts" where
  "call_df c = c\<lparr>df_calls := df_calls c + 1\<rparr>"

definition enter_body :: "counts \<Rightarrow> counts" where
  "enter_body c = c\<lparr>loop_its := loop_its c + 1\<rparr>"

function newton_loop_cnt ::
  "(pyfloat \<Rightarrow> pyfloat) \<Rightarrow> (pyfloat \<Rightarrow> pyfloat) \<Rightarrow> pyfloat \<Rightarrow> int \<Rightarrow> pyfloat \<Rightarrow> pyfloat \<Rightarrow> int
     \<Rightarrow> counts \<Rightarrow> (error + pyfloat) \<times> counts"
where
  "newton_loop_cnt f df eps max_its x new_x current_its c =
     (if fgt (fabs (fsub x new_x)) eps then
        (let c = call_df (call_f (enter_body c))
         in if df new_x = Fin 0 then (Inl ZeroDivisionError, c)
            else if current_its > max_its then (Inl ConvergenceError, c)
            else newton_loop_cnt f df eps max_its new_x (fsub new_x (fdiv (f new_x) (df new_x)))
                   (current_its + 1) c)
      else (Inr new_x, c))"
  by pat_completeness auto
termination
  by (relation "measure (\<lambda>(f, df, eps, max_its, x, new_x, current_its, c).
                  nat (max_its + 1 - current_its))") auto

declare newton_loop_cnt.simps [simp del]

definition newton_raphson_cnt ::
  "(pyfloat \<Rightarrow> pyfloat) \<Rightarrow> (pyfloat \<Rightarrow> pyfloat) \<Rightarrow> pyfloat \<Rightarrow> pyfloat \<Rightarrow> int
     \<Rightarrow> (error + pyfloat) \<times> counts"
where
  "newton_raphson_cnt f df x_0 eps max_its =
     (let c = call_df (call_f \<lparr>f_calls = 0, df_calls = 0, loop_its = 0\<rparr>)
      in if df x_0 = Fin 0 then (Inl ZeroDivisionError, c)
         else newton_loop_cnt f df eps max_its x_0 (fsub x_0 (fdiv (f x_0) (df x_0))) 1 c)"

text \<open>
  The loop condition of \<^verbatim>\<open>bisection\<close> calls \<^verbatim>\<open>f\<close> once, the bracket check
  twice, and the choice of the bound to replace twice more.
\<close>

function bisection_loop_cnt ::
  "(pyfloat \<Rightarrow> pyfloat) \<Rightarrow> pyfloat \<Rightarrow> int \<Rightarrow> pyfloat \<Rightarrow> pyfloat \<Rightarrow> pyfloat \<Rightarrow> int \<Rightarrow> counts
     \<Rightarrow> (error + pyfloat) \<times> counts"
where
  "bisection_loop_cnt f eps max_its x_l x_r new_x current_its c =
     (let c = call_f c
      in if fgt (fabs (f new_x)) eps then
           (let c = call_f (call_f (enter_body c))
            in if fgt (fmul (f x_l) (f x_r)) (Fin 0) then (Inl ValueError, c)
               else
                 (let new_x = fdiv (fadd x_r x_l) (Fin 2);
                      c = call_f (call_f c);
                      (x_l', x_r') = (if fgt (fmul (f new_x) (f x_l)) (Fin 0) then (new_x, x_r)
                                      else (x_l, new_x))
                  in if current_its > max_its then (Inl ConvergenceError, c)
                     else bisection_loop_cnt f eps max_its x_l' x_r' new_x (current_its + 1) c))
         else (Inr new_x, c))"
  by pat_completeness auto
termination
  by (relation "measure (\<lambda>(f, eps, max_its, x_l, x_r, new_x, current_its, c).
                  nat (max_its + 1 - current_its))") auto

declare bisection_loop_cnt.simps [simp del]

definition bisection_cnt ::
  "(pyfloat \<Rightarrow> pyfloat) \<Rightarrow> pyfloat \<Rightarrow> pyfloat \<Rightarrow> pyfloat \<Rightarrow> int \<Rightarrow> (error + pyfloat) \<times> counts"
where
  "bisection_cnt f x_0 x_1 eps max_its =
     bisection_loop_cnt f eps max_its x_0 x_1 x_0 0 \<lparr>f_calls = 0, df_calls = 0, loop_its = 0\<rparr>"

section \<open>Properties\<close>

subsection \<open>Comparisons and signs\<close>

lemmas float_eval = to_float_def overflow_threshold_def underflow_threshold_def fsub_def

lemma not_fgt_iff: "\<not> fgt a b \<longleftrightarrow> fle a b \<or> a = NaN \<or> b = NaN"
  by (cases a; cases b) auto

lemma fle_not_fgt: "fle a b \<Longrightarrow> \<not> fgt a b"
  by (simp add: not_fgt_iff)

lemma fabs_NaN_iff: "fabs v = NaN \<longleftrightarrow> v = NaN"
  by (cases v) auto

lemma fmul_commute: "fmul a b = fmul b a"
  by (cases a; cases b) (auto simp: mult.commute)

lemma fmul_zero_not_pos: "\<not> fgt (fmul (Fin 0) v) (Fin 0)"
  by (cases v) (auto simp: float_eval)


lemma fin_product_sign:
  assumes "a = 0 \<or> 1 / 2 ^ 537 \<le> \<bar>a\<bar>" and "b = 0 \<or> 1 / 2 ^ 537 \<le> \<bar>b\<bar>"
  shows "fgt (to_float (a * b)) (Fin 0) \<longleftrightarrow> (0 < a \<and> 0 < b) \<or> (a < 0 \<and> b < 0)"
proof (cases "a = 0 \<or> b = 0")
  case True
  then show ?thesis by (auto simp: float_eval)
next
  case False
  with assms have a: "1 / 2 ^ 537 \<le> \<bar>a\<bar>" and b: "1 / 2 ^ 537 \<le> \<bar>b\<bar>"
    by auto
  have "(1 / 2 ^ 537) * (1 / 2 ^ 537) \<le> \<bar>a\<bar> * \<bar>b\<bar>"
    by (rule mult_mono [OF a b]) simp_all
  then have "(1 / 2 ^ 537) * (1 / 2 ^ 537) \<le> \<bar>a * b\<bar>"
    by (simp add: abs_mult)
  moreover have "underflow_threshold < (1 / 2 ^ 537) * (1 / 2 ^ 537)"
    by (simp add: underflow_threshold_def)
  ultimately have big: "underflow_threshold < \<bar>a * b\<bar>"
    by linarith
  have thr: "0 < overflow_threshold"
    by (simp add: overflow_threshold_def)
  from big thr have "fgt (to_float (a * b)) (Fin 0) \<longleftrightarrow> 0 < a * b"
    by (auto simp: to_float_def)
  then show ?thesis
    by (simp add: zero_less_mult_iff)
qed

lemma product_sign:
  "sign_safe a \<Longrightarrow> sign_safe b \<Longrightarrow>
     fgt (fmul a b) (Fin 0) \<longleftrightarrow> (is_pos a \<and> is_pos b) \<or> (is_neg a \<and> is_neg b)"
proof (cases a; cases b)
  fix x y assume "a = Fin x" "b = Fin y" "sign_safe a" "sign_safe b"
  then show ?thesis
    using fin_product_sign [of x y] by (simp add: is_pos_def is_neg_def)
qed (auto simp: is_pos_def is_neg_def)

lemma to_float_pos: "fgt (to_float r) (Fin 0) \<Longrightarrow> 0 < r"
proof -
  assume gt: "fgt (to_float r) (Fin 0)"
  have "0 < overflow_threshold"
    by (simp add: overflow_threshold_def)
  with gt show ?thesis
    by (auto simp: to_float_def split: if_splits)
qed

lemma fmul_pos_same_sign:
  "fgt (fmul a b) (Fin 0) \<Longrightarrow> (is_pos a \<and> is_pos b) \<or> (is_neg a \<and> is_neg b)"
  by (cases a; cases b)
     (auto simp: is_pos_def is_neg_def zero_less_mult_iff dest!: to_float_pos split: if_splits)

subsection \<open>What a normal return of the bisection loop tells\<close>

lemma bisection_loop_exit:
  "bisection_loop f eps max_its x_l x_r new_x current_its = Inr r \<Longrightarrow> \<not> fgt (fabs (f r)) eps"
proof (induction f eps max_its x_l x_r new_x current_its rule: bisection_loop.induct)
  case (1 f eps max_its x_l x_r new_x current_its)
  show ?case
  proof (cases "fgt (fabs (f new_x)) eps")
    case False
    with "1.prems" show ?thesis
      by (simp add: bisection_loop.simps [of f eps max_its x_l x_r new_x current_its])
  next
    case True
    with "1.prems" obtain a b c d where
      body: "bisection_body f max_its x_l x_r current_its = Inr (a, b, c, d)" and
      rest: "bisection_loop f eps max_its a b c d = Inr r"
      by (auto simp: bisection_loop.simps [of f eps max_its x_l x_r new_x current_its]
               split: sum.splits)
    from "1.IH" [OF True body refl refl refl rest] show ?thesis .
  qed
qed

text \<open>
  Claim C2, as amended. Whenever \<open>bisection f x_0 x_1 eps max_its\<close> returns
  normally, the exit test \<^verbatim>\<open>abs(f(x)) > eps\<close> is false at the value \<open>x\<close> it
  returns: \<open>abs(f(x)) <= eps\<close> holds, or \<open>f x\<close> is NaN, or \<open>eps\<close> is NaN. So the
  returned value is within the tolerance whenever \<open>f x\<close> and \<open>eps\<close> are numbers.
  This holds for every \<open>f\<close> and every pair of endpoints.
\<close>

theorem bisection_returns_exit_test_false:
  "bisection f x_0 x_1 eps max_its = Inr x \<Longrightarrow>
     \<not> fgt (fabs (f x)) eps \<and>
     (fle (fabs (f x)) eps \<or> f x = NaN \<or> eps = NaN) \<and>
     (f x \<noteq> NaN \<and> eps \<noteq> NaN \<longrightarrow> fle (fabs (f x)) eps)"
proof -
  assume "bisection f x_0 x_1 eps max_its = Inr x"
  then have "\<not> fgt (fabs (f x)) eps"
    unfolding bisection_def by (rule bisection_loop_exit)
  then show ?thesis
    by (auto simp: not_fgt_iff fabs_NaN_iff)
qed

theorem bisection_returns_exit_test_false_witness:
  "bisection (\<lambda>x. fsub (fmul x x) (Fin 2)) (Fin 1) (Fin 2) (Fin (1 / 10)) 20 = Inr (Fin (23 / 16)) \<and>
   (\<lambda>x. fsub (fmul x x) (Fin 2)) (Fin (23 / 16)) \<noteq> NaN \<and> Fin (1 / 10) \<noteq> NaN \<and>
   fle (fabs ((\<lambda>x. fsub (fmul x x) (Fin 2)) (Fin (23 / 16)))) (Fin (1 / 10))"
proof -
  have run: "bisection (\<lambda>x. fsub (fmul x x) (Fin 2)) (Fin 1) (Fin 2) (Fin (1 / 10)) 20 =
               Inr (Fin (23 / 16))"
    by (simp add: bisection_def bisection_loop.simps bisection_body_def Let_def float_eval)
  have num: "(\<lambda>x. fsub (fmul x x) (Fin 2)) (Fin (23 / 16)) \<noteq> NaN \<and> Fin (1 / 10) \<noteq> NaN"
    by (simp add: float_eval)
  from bisection_returns_exit_test_false [OF run] num run show ?thesis by blast
qed

text \<open>
  The claim as stated fails where the midpoint overflows. Take
  \<open>f x = (x - x) + (x - 1.125 * 2 ^ 1023)\<close>, which is \<open>x - 1.125 * 2 ^ 1023\<close> on
  the finite floats, and the endpoints \<open>2 ^ 1023\<close> and \<open>1.5 * 2 ^ 1023\<close>, where
  \<open>f\<close> is negative and positive. The sum of the endpoints is infinite, so is the
  midpoint, \<open>f\<close> is NaN there, the loop condition is false, and the infinite
  midpoint is returned: \<open>abs(f(x)) <= eps\<close> is false for it.
\<close>

theorem bisection_nan_exit_counterexample:
  "is_neg ((\<lambda>x. fadd (fsub x x) (fsub x (Fin (9 / 8 * 2 ^ 1023)))) (Fin (2 ^ 1023))) \<and>
   is_pos ((\<lambda>x. fadd (fsub x x) (fsub x (Fin (9 / 8 * 2 ^ 1023)))) (Fin (3 / 2 * 2 ^ 1023))) \<and>
   bisection (\<lambda>x. fadd (fsub x x) (fsub x (Fin (9 / 8 * 2 ^ 1023))))
     (Fin (2 ^ 1023)) (Fin (3 / 2 * 2 ^ 1023)) (Fin (1 / 100000)) 20 = Inr PInf \<and>
   \<not> fle (fabs ((\<lambda>x. fadd (fsub x x) (fsub x (Fin (9 / 8 * 2 ^ 1023)))) PInf)) (Fin (1 / 100000))"
  by (simp add: bisection_def bisection_loop.simps bisection_body_def Let_def float_eval
        is_pos_def is_neg_def)

subsection \<open>The composite solver\<close>

text \<open>
  Claim C1. If the inner call of \<open>newton_raphson\<close> raises \<open>ConvergenceError\<close>, then
  \<open>solve\<close> gives exactly what \<open>bisection f x_0 x_1 eps max_its_b\<close> gives (its value,
  or its exception). If the inner call returns a root, \<open>solve\<close> drops it and returns
  \<open>None\<close>.
\<close>

theorem solve_fallback_or_none:
  "(newton_raphson f df x_0 eps max_its_n = Inl ConvergenceError \<longrightarrow>
      solve f df x_0 x_1 eps max_its_n max_its_b =
        map_sum id Some (bisection f x_0 x_1 eps max_its_b)) \<and>
   (\<forall>r. newton_raphson f df x_0 eps max_its_n = Inr r \<longrightarrow>
      solve f df x_0 x_1 eps max_its_n max_its_b = Inr None)"
  by (auto simp: solve_def split: sum.splits)

theorem solve_fallback_or_none_witness:
  "newton_raphson (\<lambda>x. fadd x (Fin 5)) (\<lambda>x. Fin 1) (Fin 1) (Fin (1 / 100000)) 0 =
     Inl ConvergenceError \<and>
   solve (\<lambda>x. fadd x (Fin 5)) (\<lambda>x. Fin 1) (Fin 1) (Fin (- 11)) (Fin (1 / 100000)) 0 20 =
     Inr (Some (Fin (- 5))) \<and>
   newton_raphson (\<lambda>x. fadd x (Fin 5)) (\<lambda>x. Fin 1) (Fin 1) (Fin (1 / 100000)) 20 =
     Inr (Fin (- 5)) \<and>
   solve (\<lambda>x. fadd x (Fin 5)) (\<lambda>x. Fin 1) (Fin 1) (Fin (- 11)) (Fin (1 / 100000)) 20 20 =
     Inr None"
proof -
  have fails: "newton_raphson (\<lambda>x. fadd x (Fin 5)) (\<lambda>x. Fin 1) (Fin 1) (Fin (1 / 100000)) 0 =
      Inl ConvergenceError"
    by (simp add: newton_raphson_def newton_loop.simps float_eval)
  have finds: "newton_raphson (\<lambda>x. fadd x (Fin 5)) (\<lambda>x. Fin 1) (Fin 1) (Fin (1 / 100000)) 20 =
      Inr (Fin (- 5))"
    by (simp add: newton_raphson_def newton_loop.simps float_eval)
  have bis: "bisection (\<lambda>x. fadd x (Fin 5)) (Fin 1) (Fin (- 11)) (Fin (1 / 100000)) 20 =
      Inr (Fin (- 5))"
    by (simp add: bisection_def bisection_loop.simps bisection_body_def Let_def float_eval)
  note i1 = solve_fallback_or_none
    [of "\<lambda>x. fadd x (Fin 5)" "\<lambda>x. Fin 1" "Fin 1" "Fin (1 / 100000)" 0 "Fin (- 11)" 20]
  note i2 = solve_fallback_or_none
    [of "\<lambda>x. fadd x (Fin 5)" "\<lambda>x. Fin 1" "Fin 1" "Fin (1 / 100000)" 20 "Fin (- 11)" 20]
  have "solve (\<lambda>x. fadd x (Fin 5)) (\<lambda>x. Fin 1) (Fin 1) (Fin (- 11)) (Fin (1 / 100000)) 0 20 =
          map_sum id Some (bisection (\<lambda>x. fadd x (Fin 5)) (Fin 1) (Fin (- 11)) (Fin (1 / 100000)) 20)"
    by (rule mp [OF conjunct1 [OF i1] fails])
  then have s1: "solve (\<lambda>x. fadd x (Fin 5)) (\<lambda>x. Fin 1) (Fin 1) (Fin (- 11)) (Fin (1 / 100000)) 0 20 =
          Inr (Some (Fin (- 5)))"
    by (simp add: bis)
  have s2: "solve (\<lambda>x. fadd x (Fin 5)) (\<lambda>x. Fin 1) (Fin 1) (Fin (- 11)) (Fin (1 / 100000)) 20 20 =
          Inr None"
    by (rule mp [OF spec [OF conjunct2 [OF i2]] finds])
  show ?thesis
    by (intro conjI fails s1 finds s2)
qed

subsection \<open>What a normal return of the Newton-Raphson loop tells\<close>

lemma newton_loop_last_step:
  "newton_loop f df eps max_its x new_x current_its = Inr r \<Longrightarrow>
   new_x = newton_step f df x \<Longrightarrow> df x \<noteq> Fin 0 \<Longrightarrow>
   \<exists>n. df ((newton_step f df ^^ n) x) \<noteq> Fin 0 \<and>
       r = newton_step f df ((newton_step f df ^^ n) x) \<and>
       \<not> fgt (fabs (fsub ((newton_step f df ^^ n) x) r)) eps"
proof (induction f df eps max_its x new_x current_its rule: newton_loop.induct)
  case (1 f df eps max_its x new_x current_its)
  show ?case
  proof (cases "fgt (fabs (fsub x new_x)) eps")
    case False
    with "1.prems"(1) have "r = new_x"
      by (simp add: newton_loop.simps [of f df eps max_its x new_x current_its])
    with False "1.prems" have
      "df ((newton_step f df ^^ 0) x) \<noteq> Fin 0 \<and>
       r = newton_step f df ((newton_step f df ^^ 0) x) \<and>
       \<not> fgt (fabs (fsub ((newton_step f df ^^ 0) x) r)) eps"
      by simp
    then show ?thesis by blast
  next
    case True
    with "1.prems"(1) have nz: "df new_x \<noteq> Fin 0" and cap: "\<not> current_its > max_its" and
      rest: "newton_loop f df eps max_its new_x (fsub new_x (fdiv (f new_x) (df new_x)))
               (current_its + 1) = Inr r"
      by (auto simp: newton_loop.simps [of f df eps max_its x new_x current_its]
               split: if_splits)
    have "fsub new_x (fdiv (f new_x) (df new_x)) = newton_step f df new_x"
      by (simp add: newton_step_def)
    from "1.IH" [OF True nz cap rest this nz] obtain n where
      n: "df ((newton_step f df ^^ n) new_x) \<noteq> Fin 0"
         "r = newton_step f df ((newton_step f df ^^ n) new_x)"
         "\<not> fgt (fabs (fsub ((newton_step f df ^^ n) new_x) r)) eps"
      by blast
    have "(newton_step f df ^^ n) new_x = (newton_step f df ^^ Suc n) x"
      using "1.prems"(2) by (simp add: funpow_swap1)
    with n show ?thesis by metis
  qed
qed

text \<open>
  Claim C3, as amended. Whenever \<open>newton_raphson\<close> returns normally, the value \<open>r\<close>
  it returns is the last Newton update \<open>x_prev - f x_prev / df x_prev\<close>, computed
  from an iterate \<open>x_prev\<close> of the Newton sequence started at \<open>x_0\<close>, and the loop
  test \<^verbatim>\<open>abs(x_prev - r) > eps\<close> is false: the last step is within the
  tolerance, or the difference \<open>x_prev - r\<close> is NaN, or \<open>eps\<close> is NaN. The test is
  on the step, not on \<open>f r\<close>.
\<close>

theorem newton_raphson_returns_last_step:
  "newton_raphson f df x_0 eps max_its = Inr r \<Longrightarrow>
   \<exists>n x_prev. x_prev = (newton_step f df ^^ n) x_0 \<and> df x_prev \<noteq> Fin 0 \<and>
     r = fsub x_prev (fdiv (f x_prev) (df x_prev)) \<and>
     \<not> fgt (fabs (fsub x_prev r)) eps \<and>
     (fle (fabs (fsub x_prev r)) eps \<or> fsub x_prev r = NaN \<or> eps = NaN)"
proof -
  assume ret: "newton_raphson f df x_0 eps max_its = Inr r"
  then have nz: "df x_0 \<noteq> Fin 0"
    by (auto simp: newton_raphson_def split: if_splits)
  with ret have "newton_loop f df eps max_its x_0 (newton_step f df x_0) 1 = Inr r"
    by (simp add: newton_raphson_def newton_step_def)
  from newton_loop_last_step [OF this refl nz] obtain n where
    n: "df ((newton_step f df ^^ n) x_0) \<noteq> Fin 0"
       "r = newton_step f df ((newton_step f df ^^ n) x_0)"
       "\<not> fgt (fabs (fsub ((newton_step f df ^^ n) x_0) r)) eps"
    by blast
  from n(3) have "fle (fabs (fsub ((newton_step f df ^^ n) x_0) r)) eps \<or>
      fsub ((newton_step f df ^^ n) x_0) r = NaN \<or> eps = NaN"
    by (simp add: not_fgt_iff fabs_NaN_iff)
  with n show ?thesis
    unfolding newton_step_def [of f df "(newton_step f df ^^ n) x_0"] by blast
qed

theorem newton_raphson_returns_last_step_witness:
  "newton_raphson (\<lambda>x. fsub (fmul x x) (Fin 2)) (\<lambda>x. fmul (Fin 2) x) (Fin 1) (Fin (1 / 10)) 20 =
     Inr (Fin (17 / 12)) \<and>
   (\<exists>n x_prev. x_prev = (newton_step (\<lambda>x. fsub (fmul x x) (Fin 2)) (\<lambda>x. fmul (Fin 2) x) ^^ n) (Fin 1) \<and>
      fmul (Fin 2) x_prev \<noteq> Fin 0 \<and>
      Fin (17 / 12) = fsub x_prev (fdiv (fsub (fmul x_prev x_prev) (Fin 2)) (fmul (Fin 2) x_prev)) \<and>
      \<not> fgt (fabs (fsub x_prev (Fin (17 / 12)))) (Fin (1 / 10)))"
proof -
  have run: "newton_raphson (\<lambda>x. fsub (fmul x x) (Fin 2)) (\<lambda>x. fmul (Fin 2) x) (Fin 1)
               (Fin (1 / 10)) 20 = Inr (Fin (17 / 12))"
    by (simp add: newton_raphson_def newton_loop.simps float_eval)
  from newton_raphson_returns_last_step [OF run] run show ?thesis by blast
qed

text \<open>
  The claim as stated fails where the iterates overflow. For the constant
  functions \<open>f x = 2 ^ 1000\<close> and \<open>df x = 2 ^ -100\<close>, \<open>x_0 = 0\<close> and a cap of \<open>1\<close>,
  the quotient overflows: the first update is \<open>-inf\<close>, and so is the second. The
  difference of the last two iterates is NaN, the loop test is false, and
  \<open>-inf\<close> is returned although \<open>abs(x_prev - new_x) <= eps\<close> is false.
\<close>

theorem newton_raphson_nan_step_counterexample:
  "newton_raphson (\<lambda>x. Fin (2 ^ 1000)) (\<lambda>x. Fin (1 / 2 ^ 100)) (Fin 0) (Fin (1 / 100000)) 1 =
     Inr NInf \<and>
   newton_step (\<lambda>x. Fin (2 ^ 1000)) (\<lambda>x. Fin (1 / 2 ^ 100)) (Fin 0) = NInf \<and>
   newton_step (\<lambda>x. Fin (2 ^ 1000)) (\<lambda>x. Fin (1 / 2 ^ 100)) NInf = NInf \<and>
   \<not> fle (fabs (fsub NInf NInf)) (Fin (1 / 100000))"
  by (simp add: newton_raphson_def newton_loop.simps newton_step_def float_eval)

subsection \<open>One iteration of bisection\<close>

text \<open>
  Claim C4, as amended. After the midpoint \<open>new_x = (x_r + x_l) / 2\<close>, the left bound
  is replaced by \<open>new_x\<close> exactly when the computed product \<open>f new_x * f x_l\<close>
  compares greater than zero; in every other case it is the right bound that is
  replaced and \<open>x_l\<close> is kept. The product is not greater than zero when
  \<open>f new_x\<close> is zero (the tie), when it underflows to zero, and when it is NaN.
  The product is greater than zero only if \<open>f new_x\<close> and \<open>f x_l\<close> are both
  positive or both negative, and it is so whenever they are and neither is too
  small for the product.
\<close>

theorem bisection_body_replaces:
  "bisection_body f max_its x_l x_r current_its = Inr (x_l', x_r', new_x, its') \<Longrightarrow>
     new_x = fdiv (fadd x_r x_l) (Fin 2) \<and>
     (fgt (fmul (f new_x) (f x_l)) (Fin 0) \<longrightarrow>
        x_l' = new_x \<and> x_r' = x_r \<and>
        ((is_pos (f new_x) \<and> is_pos (f x_l)) \<or> (is_neg (f new_x) \<and> is_neg (f x_l)))) \<and>
     (\<not> fgt (fmul (f new_x) (f x_l)) (Fin 0) \<longrightarrow> x_l' = x_l \<and> x_r' = new_x) \<and>
     (f new_x = Fin 0 \<longrightarrow> x_l' = x_l \<and> x_r' = new_x) \<and>
     (sign_safe (f new_x) \<and> sign_safe (f x_l) \<and>
      ((is_pos (f new_x) \<and> is_pos (f x_l)) \<or> (is_neg (f new_x) \<and> is_neg (f x_l))) \<longrightarrow>
        x_l' = new_x \<and> x_r' = x_r)"
proof -
  assume body: "bisection_body f max_its x_l x_r current_its = Inr (x_l', x_r', new_x, its')"
  then have mid: "new_x = fdiv (fadd x_r x_l) (Fin 2)"
    by (auto simp: bisection_body_def Let_def split: if_splits)
  from body mid have left:
    "fgt (fmul (f new_x) (f x_l)) (Fin 0) \<Longrightarrow> x_l' = new_x \<and> x_r' = x_r"
    by (auto simp: bisection_body_def Let_def split: if_splits)
  from body mid have right:
    "\<not> fgt (fmul (f new_x) (f x_l)) (Fin 0) \<Longrightarrow> x_l' = x_l \<and> x_r' = new_x"
    by (auto simp: bisection_body_def Let_def split: if_splits)
  have tie: "f new_x = Fin 0 \<Longrightarrow> \<not> fgt (fmul (f new_x) (f x_l)) (Fin 0)"
    using fmul_zero_not_pos [of "f x_l"] by simp
  show ?thesis
    using mid left right fmul_pos_same_sign [of "f new_x" "f x_l"] tie
      product_sign [of "f new_x" "f x_l"]
    by blast
qed

theorem bisection_body_replaces_witness:
  "bisection_body (\<lambda>x. fsub (fmul x x) (Fin 2)) 20 (Fin 1) (Fin (3 / 2)) 1 =
     Inr (Fin (5 / 4), Fin (3 / 2), Fin (5 / 4), 2) \<and>
   fgt (fmul ((\<lambda>x. fsub (fmul x x) (Fin 2)) (Fin (5 / 4))) ((\<lambda>x. fsub (fmul x x) (Fin 2)) (Fin 1)))
     (Fin 0) \<and>
   is_neg ((\<lambda>x. fsub (fmul x x) (Fin 2)) (Fin (5 / 4))) \<and>
   is_neg ((\<lambda>x. fsub (fmul x x) (Fin 2)) (Fin 1)) \<and>
   sign_safe ((\<lambda>x. fsub (fmul x x) (Fin 2)) (Fin (5 / 4))) \<and>
   sign_safe ((\<lambda>x. fsub (fmul x x) (Fin 2)) (Fin 1)) \<and>
   bisection_body (\<lambda>x. fsub (fmul x x) (Fin 2)) 20 (Fin 1) (Fin 2) 0 =
     Inr (Fin 1, Fin (3 / 2), Fin (3 / 2), 1) \<and>
   \<not> fgt (fmul ((\<lambda>x. fsub (fmul x x) (Fin 2)) (Fin (3 / 2))) ((\<lambda>x. fsub (fmul x x) (Fin 2)) (Fin 1)))
     (Fin 0) \<and>
   bisection_body (\<lambda>x. x) 20 (Fin (- 1)) (Fin 1) 0 = Inr (Fin (- 1), Fin 0, Fin 0, 1) \<and>
   (\<lambda>x. x) (Fin 0) = Fin 0"
proof -
  have run1: "bisection_body (\<lambda>x. fsub (fmul x x) (Fin 2)) 20 (Fin 1) (Fin (3 / 2)) 1 =
      Inr (Fin (5 / 4), Fin (3 / 2), Fin (5 / 4), 2)"
    by (simp add: bisection_body_def Let_def float_eval)
  have run2: "bisection_body (\<lambda>x. fsub (fmul x x) (Fin 2)) 20 (Fin 1) (Fin 2) 0 =
      Inr (Fin 1, Fin (3 / 2), Fin (3 / 2), 1)"
    by (simp add: bisection_body_def Let_def float_eval)
  have run3: "bisection_body (\<lambda>x. x) 20 (Fin (- 1)) (Fin 1) 0 = Inr (Fin (- 1), Fin 0, Fin 0, 1)"
    by (simp add: bisection_body_def Let_def float_eval)
  have gt: "fgt (fmul ((\<lambda>x. fsub (fmul x x) (Fin 2)) (Fin (5 / 4)))
                      ((\<lambda>x. fsub (fmul x x) (Fin 2)) (Fin 1))) (Fin 0)"
    by (simp add: float_eval)
  have ngt: "\<not> fgt (fmul ((\<lambda>x. fsub (fmul x x) (Fin 2)) (Fin (3 / 2)))
                          ((\<lambda>x. fsub (fmul x x) (Fin 2)) (Fin 1))) (Fin 0)"
    by (simp add: float_eval)
  have safe: "sign_safe ((\<lambda>x. fsub (fmul x x) (Fin 2)) (Fin (5 / 4))) \<and>
              sign_safe ((\<lambda>x. fsub (fmul x x) (Fin 2)) (Fin 1))"
    by (simp add: float_eval)
  have tie: "(\<lambda>x. x) (Fin 0) = Fin 0"
    by simp
  have np: "\<not> is_pos ((\<lambda>x. fsub (fmul x x) (Fin 2)) (Fin 1))"
    by (simp add: is_pos_def float_eval)
  note i1 = bisection_body_replaces [OF run1]
  note i2 = bisection_body_replaces [OF run2]
  note i3 = bisection_body_replaces [OF run3]
  have "Fin (5 / 4) = Fin (5 / 4) \<and> Fin (3 / 2) = Fin (3 / 2) \<and>
        ((is_pos ((\<lambda>x. fsub (fmul x x) (Fin 2)) (Fin (5 / 4))) \<and>
          is_pos ((\<lambda>x. fsub (fmul x x) (Fin 2)) (Fin 1))) \<or>
         (is_neg ((\<lambda>x. fsub (fmul x x) (Fin 2)) (Fin (5 / 4))) \<and>
          is_neg ((\<lambda>x. fsub (fmul x x) (Fin 2)) (Fin 1))))"
    by (rule mp [OF conjunct1 [OF conjunct2 [OF i1]] gt])
  with np have neg: "is_neg ((\<lambda>x. fsub (fmul x x) (Fin 2)) (Fin (5 / 4))) \<and>
                     is_neg ((\<lambda>x. fsub (fmul x x) (Fin 2)) (Fin 1))"
    by fast
  have right: "Fin 1 = Fin 1 \<and> Fin (3 / 2) = Fin (3 / 2)"
    by (rule mp [OF conjunct1 [OF conjunct2 [OF conjunct2 [OF i2]]] ngt])
  have tied: "Fin (- 1) = Fin (- 1) \<and> Fin 0 = Fin 0"
    by (rule mp [OF conjunct1 [OF conjunct2 [OF conjunct2 [OF conjunct2 [OF i3]]]] tie])
  from right tied show ?thesis
    by (intro conjI run1 gt conjunct1 [OF neg] conjunct2 [OF neg] conjunct1 [OF safe]
          conjunct2 [OF safe] run2 ngt run3 tie)
qed

text \<open>
  The claim as stated fails on the tie: for \<open>f x = x\<close> on \<open>[-1, 1]\<close> the midpoint
  is \<open>0\<close> with \<open>f 0 = 0\<close>, and the new bracket is \<open>[-1, 0]\<close>: the right bound was
  replaced, not the left one.
\<close>

theorem bisection_tie_counterexample:
  "(\<lambda>x. x) (fdiv (fadd (Fin 1) (Fin (- 1))) (Fin 2)) = Fin 0 \<and>
   bisection_body (\<lambda>x. x) 20 (Fin (- 1)) (Fin 1) 0 = Inr (Fin (- 1), Fin 0, Fin 0, 1)"
  by (simp add: bisection_body_def Let_def float_eval)

subsection \<open>The bracket check\<close>

text \<open>
  Claim C5, as amended. In any state of the loop, whatever the value of the
  iteration counter, an iteration that is entered with the computed product
  \<open>f x_l * f x_r\<close> greater than zero raises \<open>ValueError\<close> (the spec's
  InvalidBracket), and an iteration entered with a product that is not greater
  than zero does not: a product that underflows to zero, or is NaN, passes the
  check. \<open>solve\<close> catches \<open>ConvergenceError\<close> only, and only around
  \<open>newton_raphson\<close>: a \<open>ValueError\<close> of the fallback reaches the caller of \<open>solve\<close>.
\<close>

theorem invalid_bracket_raised_and_propagated:
  "(fgt (fabs (f new_x)) eps \<and> fgt (fmul (f x_l) (f x_r)) (Fin 0) \<longrightarrow>
      bisection_loop f eps max_its x_l x_r new_x current_its = Inl ValueError) \<and>
   (fgt (fabs (f new_x)) eps \<and> \<not> fgt (fmul (f x_l) (f x_r)) (Fin 0) \<longrightarrow>
      bisection_body f max_its x_l x_r current_its \<noteq> Inl ValueError) \<and>
   (newton_raphson f df x_0 eps max_its_n = Inl ConvergenceError \<and>
    bisection f x_0 x_1 eps max_its_b = Inl ValueError \<longrightarrow>
      solve f df x_0 x_1 eps max_its_n max_its_b = Inl ValueError)"
  by (simp add: bisection_loop.simps [of f eps max_its x_l x_r new_x current_its]
        bisection_body_def solve_def Let_def split: prod.splits)

theorem invalid_bracket_raised_and_propagated_witness:
  "fgt (fabs ((\<lambda>x. fadd x (Fin 5)) (Fin 1))) (Fin (1 / 100000)) \<and>
   fgt (fmul ((\<lambda>x. fadd x (Fin 5)) (Fin 1)) ((\<lambda>x. fadd x (Fin 5)) (Fin 2))) (Fin 0) \<and>
   bisection_loop (\<lambda>x. fadd x (Fin 5)) (Fin (1 / 100000)) 20 (Fin 1) (Fin 2) (Fin 1) 7 =
     Inl ValueError \<and>
   \<not> fgt (fmul ((\<lambda>x. fadd x (Fin 5)) (Fin 1)) ((\<lambda>x. fadd x (Fin 5)) (Fin (- 11)))) (Fin 0) \<and>
   bisection_body (\<lambda>x. fadd x (Fin 5)) 20 (Fin 1) (Fin (- 11)) 7 \<noteq> Inl ValueError \<and>
   newton_raphson (\<lambda>x. fadd x (Fin 5)) (\<lambda>x. Fin 1) (Fin 1) (Fin (1 / 100000)) 0 =
     Inl ConvergenceError \<and>
   bisection (\<lambda>x. fadd x (Fin 5)) (Fin 1) (Fin 2) (Fin (1 / 100000)) 20 = Inl ValueError \<and>
   solve (\<lambda>x. fadd x (Fin 5)) (\<lambda>x. Fin 1) (Fin 1) (Fin 2) (Fin (1 / 100000)) 0 20 =
     Inl ValueError"
proof -
  have far: "fgt (fabs ((\<lambda>x. fadd x (Fin 5)) (Fin 1))) (Fin (1 / 100000))"
    by (simp add: float_eval)
  have bad: "fgt (fmul ((\<lambda>x. fadd x (Fin 5)) (Fin 1)) ((\<lambda>x. fadd x (Fin 5)) (Fin 2))) (Fin 0)"
    by (simp add: float_eval)
  have good: "\<not> fgt (fmul ((\<lambda>x. fadd x (Fin 5)) (Fin 1)) ((\<lambda>x. fadd x (Fin 5)) (Fin (- 11))))
                (Fin 0)"
    by (simp add: float_eval)
  have fails: "newton_raphson (\<lambda>x. fadd x (Fin 5)) (\<lambda>x. Fin 1) (Fin 1) (Fin (1 / 100000)) 0 =
      Inl ConvergenceError"
    by (simp add: newton_raphson_def newton_loop.simps float_eval)
  have bis: "bisection (\<lambda>x. fadd x (Fin 5)) (Fin 1) (Fin 2) (Fin (1 / 100000)) 20 =
      Inl ValueError"
    by (simp add: bisection_def bisection_loop.simps bisection_body_def Let_def float_eval)
  note i1 = invalid_bracket_raised_and_propagated
    [of "\<lambda>x. fadd x (Fin 5)" "Fin 1" "Fin (1 / 100000)" "Fin 1" "Fin 2" 20 7
        "\<lambda>x. Fin 1" "Fin 1" 0 "Fin 2" 20]
  note i2 = invalid_bracket_raised_and_propagated
    [of "\<lambda>x. fadd x (Fin 5)" "Fin 1" "Fin (1 / 100000)" "Fin 1" "Fin (- 11)" 20 7
        "\<lambda>x. Fin 1" "Fin 1" 0 "Fin 2" 20]
  have r1: "bisection_loop (\<lambda>x. fadd x (Fin 5)) (Fin (1 / 100000)) 20 (Fin 1) (Fin 2) (Fin 1) 7 =
      Inl ValueError"
    by (rule mp [OF conjunct1 [OF i1]]) (intro conjI far bad)
  have r2: "bisection_body (\<lambda>x. fadd x (Fin 5)) 20 (Fin 1) (Fin (- 11)) 7 \<noteq> Inl ValueError"
    by (rule mp [OF conjunct1 [OF conjunct2 [OF i2]]]) (intro conjI far good)
  have r3: "solve (\<lambda>x. fadd x (Fin 5)) (\<lambda>x. Fin 1) (Fin 1) (Fin 2) (Fin (1 / 100000)) 0 20 =
      Inl ValueError"
    by (rule mp [OF conjunct2 [OF conjunct2 [OF i1]]]) (intro conjI fails bis)
  show ?thesis
    by (intro conjI far bad r1 good r2 fails bis r3)
qed

text \<open>
  The claim as stated fails in two ways. For \<open>f x = x * 2 ^ -600\<close> on \<open>[1, 2]\<close>
  both values of \<open>f\<close> are positive, but their product underflows to zero: the
  check passes, and with a cap of \<open>0\<close> the call ends in \<open>ConvergenceError\<close>. For
  \<open>f x = x * 2 ^ 1023\<close> with \<open>x_0 = 2\<close> and \<open>x_1 = 0\<close> the values are \<open>inf\<close> and
  \<open>0\<close>, their product is NaN, and the test \<open>f x_l * f x_r <= 0\<close> is false; yet
  the test of the code, \<open>f x_l * f x_r > 0\<close>, is false too, and no \<open>ValueError\<close>
  is raised.
\<close>

theorem bracket_check_passes_counterexample:
  "is_pos ((\<lambda>x. fmul x (Fin (1 / 2 ^ 600))) (Fin 1)) \<and>
   is_pos ((\<lambda>x. fmul x (Fin (1 / 2 ^ 600))) (Fin 2)) \<and>
   bisection (\<lambda>x. fmul x (Fin (1 / 2 ^ 600))) (Fin 1) (Fin 2) (Fin (1 / 2 ^ 1000)) 0 =
     Inl ConvergenceError \<and>
   \<not> fle (fmul ((\<lambda>x. fmul x (Fin (2 ^ 1023))) (Fin 2)) ((\<lambda>x. fmul x (Fin (2 ^ 1023))) (Fin 0)))
       (Fin 0) \<and>
   bisection (\<lambda>x. fmul x (Fin (2 ^ 1023))) (Fin 2) (Fin 0) (Fin (1 / 100000)) 0 =
     Inl ConvergenceError"
  by (simp add: bisection_def bisection_loop.simps bisection_body_def Let_def float_eval
        is_pos_def)

subsection \<open>The counting functions compute the same results\<close>

lemma newton_loop_cnt_fst:
  "fst (newton_loop_cnt f df eps max_its x new_x current_its c) =
     newton_loop f df eps max_its x new_x current_its"
  by (induction f df eps max_its x new_x current_its c rule: newton_loop_cnt.induct)
     (simp add: newton_loop_cnt.simps newton_loop.simps Let_def)

lemma newton_raphson_cnt_fst:
  "fst (newton_raphson_cnt f df x_0 eps max_its) = newton_raphson f df x_0 eps max_its"
  by (simp add: newton_raphson_cnt_def newton_raphson_def Let_def newton_loop_cnt_fst)

lemma bisection_loop_cnt_fst:
  "fst (bisection_loop_cnt f eps max_its x_l x_r new_x current_its c) =
     bisection_loop f eps max_its x_l x_r new_x current_its"
  apply (induction f eps max_its x_l x_r new_x current_its c rule: bisection_loop_cnt.induct)
  subgoal for f eps max_its x_l x_r new_x current_its c
    apply (subst bisection_loop_cnt.simps)
    apply (subst bisection_loop.simps)
    apply (auto simp: bisection_body_def Let_def)
    done
  done

lemma bisection_cnt_fst:
  "fst (bisection_cnt f x_0 x_1 eps max_its) = bisection f x_0 x_1 eps max_its"
  by (simp add: bisection_cnt_def bisection_def bisection_loop_cnt_fst)

subsection \<open>Bisection on an endpoint that is already within tolerance\<close>

text \<open>
  Claim C9. If \<open>abs(f(x_0)) <= eps\<close> at entry, \<open>bisection\<close> returns \<open>x_0\<close> itself and
  the loop body is never entered: \<open>f\<close> is called once, by the loop condition, so
  neither the bracket check nor the midpoint is evaluated, and no iteration of the
  loop completes.
\<close>

theorem bisection_converged_at_entry:
  "fle (fabs (f x_0)) eps \<Longrightarrow>
     bisection f x_0 x_1 eps max_its = Inr x_0 \<and>
     bisection_cnt f x_0 x_1 eps max_its = (Inr x_0, \<lparr>f_calls = 1, df_calls = 0, loop_its = 0\<rparr>) \<and>
     bisection_after f eps max_its (Suc n) (x_0, x_1, x_0, 0) = None"
  by (simp add: bisection_def bisection_loop.simps bisection_cnt_def bisection_loop_cnt.simps
        call_f_def fle_not_fgt)

theorem bisection_converged_at_entry_witness:
  "fle (fabs ((\<lambda>x. fsub x (Fin 1)) (Fin 1))) (Fin (1 / 100000)) \<and>
   bisection (\<lambda>x. fsub x (Fin 1)) (Fin 1) (Fin 5) (Fin (1 / 100000)) 20 = Inr (Fin 1) \<and>
   bisection_cnt (\<lambda>x. fsub x (Fin 1)) (Fin 1) (Fin 5) (Fin (1 / 100000)) 20 =
     (Inr (Fin 1), \<lparr>f_calls = 1, df_calls = 0, loop_its = 0\<rparr>) \<and>
   bisection_after (\<lambda>x. fsub x (Fin 1)) (Fin (1 / 100000)) 20 (Suc 0) (Fin 1, Fin 5, Fin 1, 0) = None"
proof -
  have pre: "fle (fabs ((\<lambda>x. fsub x (Fin 1)) (Fin 1))) (Fin (1 / 100000))"
    by (simp add: float_eval)
  from bisection_converged_at_entry
    [of "\<lambda>x. fsub x (Fin 1)" "Fin 1" "Fin (1 / 100000)" "Fin 5" 20 0, OF pre] pre
  show ?thesis by blast
qed

subsection \<open>Bounds on the counters\<close>



lemma newton_loop_cnt_its:
  "loop_its (snd (newton_loop_cnt f df eps max_its x new_x current_its c)) \<le>
     loop_its c + nat (max_its + 1 - current_its) + 1"
proof (induction f df eps max_its x new_x current_its c rule: newton_loop_cnt.induct)
  case (1 f df eps max_its x new_x current_its c)
  show ?case
  proof (cases "fgt (fabs (fsub x new_x)) eps \<and> df new_x \<noteq> Fin 0 \<and> \<not> current_its > max_its")
    case True
    define c' where "c' = call_df (call_f (enter_body c))"
    have its: "loop_its c' = loop_its c + 1"
      by (simp add: c'_def call_f_def call_df_def enter_body_def)
    from True have unfold:
      "newton_loop_cnt f df eps max_its x new_x current_its c =
       newton_loop_cnt f df eps max_its new_x (fsub new_x (fdiv (f new_x) (df new_x)))
         (current_its + 1) c'"
      by (simp add: newton_loop_cnt.simps [of f df eps max_its x new_x current_its c]
            Let_def c'_def)
    from True have
      "loop_its (snd (newton_loop_cnt f df eps max_its new_x
         (fsub new_x (fdiv (f new_x) (df new_x))) (current_its + 1) c')) \<le>
       loop_its c' + nat (max_its + 1 - (current_its + 1)) + 1"
      by (intro "1.IH" [of c']) (simp_all add: c'_def)
    moreover from True have
      "nat (max_its + 1 - current_its) = nat (max_its + 1 - (current_its + 1)) + 1"
      by linarith
    ultimately show ?thesis unfolding unfold using its by linarith
  next
    case False
    then show ?thesis
      by (auto simp: newton_loop_cnt.simps [of f df eps max_its x new_x current_its c]
            Let_def call_f_def call_df_def enter_body_def)
  qed
qed

lemma bisection_loop_cnt_its:
  "loop_its (snd (bisection_loop_cnt f eps max_its x_l x_r new_x current_its c)) \<le>
     loop_its c + nat (max_its + 1 - current_its) + 1"
proof (induction f eps max_its x_l x_r new_x current_its c rule: bisection_loop_cnt.induct)
  case (1 f eps max_its x_l x_r new_x current_its c)
  show ?case
  proof (cases "fgt (fabs (f new_x)) eps \<and> \<not> fgt (fmul (f x_l) (f x_r)) (Fin 0) \<and>
                \<not> current_its > max_its")
    case True
    define m where "m = fdiv (fadd x_r x_l) (Fin 2)"
    define c' where "c' = call_f (call_f (call_f (call_f (enter_body (call_f c)))))"
    have its: "loop_its c' = loop_its c + 1"
      by (simp add: c'_def call_f_def enter_body_def)
    show ?thesis
    proof (cases "fgt (fmul (f m) (f x_l)) (Fin 0)")
      case left: True
      from True left have unfold:
        "bisection_loop_cnt f eps max_its x_l x_r new_x current_its c =
         bisection_loop_cnt f eps max_its m x_r m (current_its + 1) c'"
        by (simp add: bisection_loop_cnt.simps [of f eps max_its x_l x_r new_x current_its c]
              Let_def m_def c'_def)
      from True left have
        "loop_its (snd (bisection_loop_cnt f eps max_its m x_r m (current_its + 1) c')) \<le>
         loop_its c' + nat (max_its + 1 - (current_its + 1)) + 1"
        by (intro "1.IH" [of "call_f c" "call_f (call_f (enter_body (call_f c)))" m c' "(m, x_r)" m x_r])
           (simp_all add: m_def c'_def)
      moreover from True have
        "nat (max_its + 1 - current_its) = nat (max_its + 1 - (current_its + 1)) + 1"
        by linarith
      ultimately show ?thesis unfolding unfold using its by linarith
    next
      case right: False
      from True right have unfold:
        "bisection_loop_cnt f eps max_its x_l x_r new_x current_its c =
         bisection_loop_cnt f eps max_its x_l m m (current_its + 1) c'"
        by (simp add: bisection_loop_cnt.simps [of f eps max_its x_l x_r new_x current_its c]
              Let_def m_def c'_def)
      from True right have
        "loop_its (snd (bisection_loop_cnt f eps max_its x_l m m (current_its + 1) c')) \<le>
         loop_its c' + nat (max_its + 1 - (current_its + 1)) + 1"
        by (intro "1.IH" [of "call_f c" "call_f (call_f (enter_body (call_f c)))" m c' "(x_l, m)" x_l m])
           (simp_all add: m_def c'_def)
      moreover from True have
        "nat (max_its + 1 - current_its) = nat (max_its + 1 - (current_its + 1)) + 1"
        by linarith
      ultimately show ?thesis unfolding unfold using its by linarith
    qed
  next
    case False
    then show ?thesis
      by (auto simp: bisection_loop_cnt.simps [of f eps max_its x_l x_r new_x current_its c]
            Let_def call_f_def enter_body_def)
  qed
qed




text \<open>
  Claim C10, as amended. Both loops are defined by recursion on
  \<open>max_its + 1 - current_its\<close>, which every iteration that does not raise
  decreases, so every call returns a value or an error. The body of the Newton
  loop is entered at most \<open>max 1 (max_its + 1)\<close> times and the body of the
  bisection loop at most \<open>max 1 (max_its + 2)\<close> times, for every input, also with
  a negative cap. The counting functions return what the solvers return.
\<close>

theorem solvers_terminate_within_cap:
  "int (loop_its (snd (newton_raphson_cnt f df x_0 eps max_its))) \<le> max 1 (max_its + 1) \<and>
   int (loop_its (snd (bisection_cnt f x_0 x_1 eps max_its))) \<le> max 1 (max_its + 2) \<and>
   fst (newton_raphson_cnt f df x_0 eps max_its) = newton_raphson f df x_0 eps max_its \<and>
   fst (bisection_cnt f x_0 x_1 eps max_its) = bisection f x_0 x_1 eps max_its"
proof -
  have n: "int (loop_its (snd (newton_raphson_cnt f df x_0 eps max_its))) \<le> max 1 (max_its + 1)"
  proof (cases "df x_0 = Fin 0")
    case True
    then show ?thesis
      by (simp add: newton_raphson_cnt_def Let_def call_f_def call_df_def)
  next
    case False
    define c where "c = call_df (call_f \<lparr>f_calls = 0, df_calls = 0, loop_its = 0\<rparr>)"
    have "loop_its c = 0" by (simp add: c_def call_f_def call_df_def)
    with newton_loop_cnt_its [of f df eps max_its x_0 "fsub x_0 (fdiv (f x_0) (df x_0))" 1 c]
    have "loop_its (snd (newton_loop_cnt f df eps max_its x_0
            (fsub x_0 (fdiv (f x_0) (df x_0))) 1 c)) \<le> nat max_its + 1"
      by simp
    with False show ?thesis
      by (simp add: newton_raphson_cnt_def Let_def c_def)
  qed
  have b: "int (loop_its (snd (bisection_cnt f x_0 x_1 eps max_its))) \<le> max 1 (max_its + 2)"
    using bisection_loop_cnt_its
      [of f eps max_its x_0 x_1 x_0 0 "\<lparr>f_calls = 0, df_calls = 0, loop_its = 0\<rparr>"]
    by (simp add: bisection_cnt_def)
  from n b show ?thesis
    by (simp add: newton_raphson_cnt_fst bisection_cnt_fst)
qed

theorem solvers_terminate_within_cap_witness:
  "newton_raphson_cnt (\<lambda>x. fsub (fmul x x) (Fin 2)) (\<lambda>x. fmul (Fin 2) x) (Fin 1)
     (Fin (1 / 100000)) 0 =
     (Inl ConvergenceError, \<lparr>f_calls = 2, df_calls = 2, loop_its = 1\<rparr>) \<and>
   bisection_cnt (\<lambda>x. fsub (fmul x x) (Fin 2)) (Fin 1) (Fin 2) (Fin (1 / 100000)) 0 =
     (Inl ConvergenceError, \<lparr>f_calls = 10, df_calls = 0, loop_its = 2\<rparr>) \<and>
   int (loop_its (snd (newton_raphson_cnt (\<lambda>x. fsub (fmul x x) (Fin 2)) (\<lambda>x. fmul (Fin 2) x)
     (Fin 1) (Fin (1 / 100000)) 0))) \<le> max 1 (0 + 1) \<and>
   int (loop_its (snd (bisection_cnt (\<lambda>x. fsub (fmul x x) (Fin 2)) (Fin 1) (Fin 2)
     (Fin (1 / 100000)) 0))) \<le> max 1 (0 + 2)"
proof -
  have n: "newton_raphson_cnt (\<lambda>x. fsub (fmul x x) (Fin 2)) (\<lambda>x. fmul (Fin 2) x) (Fin 1)
     (Fin (1 / 100000)) 0 =
     (Inl ConvergenceError, \<lparr>f_calls = 2, df_calls = 2, loop_its = 1\<rparr>)"
    by (simp add: newton_raphson_cnt_def newton_loop_cnt.simps Let_def call_f_def call_df_def
          enter_body_def float_eval)
  have b: "bisection_cnt (\<lambda>x. fsub (fmul x x) (Fin 2)) (Fin 1) (Fin 2) (Fin (1 / 100000)) 0 =
     (Inl ConvergenceError, \<lparr>f_calls = 10, df_calls = 0, loop_its = 2\<rparr>)"
    by (simp add: bisection_cnt_def bisection_loop_cnt.simps Let_def call_f_def enter_body_def
          float_eval)
  note inst = solvers_terminate_within_cap
    [of "\<lambda>x. fsub (fmul x x) (Fin 2)" "\<lambda>x. fmul (Fin 2) x" "Fin 1" "Fin (1 / 100000)" 0 "Fin 2"]
  show ?thesis
    by (intro conjI n b conjunct1 [OF inst] conjunct1 [OF conjunct2 [OF inst]])
qed

text \<open>
  The claim as stated, at most \<open>max_its + 2\<close> iterations for every input, fails
  for a cap below \<open>-1\<close>: with \<open>max_its = -3\<close> each loop enters its body once
  before it raises, and \<open>1\<close> exceeds \<open>max_its + 2 = -1\<close>.
\<close>

theorem negative_cap_counterexample:
  "newton_raphson_cnt (\<lambda>x. fsub (fmul x x) (Fin 2)) (\<lambda>x. fmul (Fin 2) x) (Fin 1)
     (Fin (1 / 100000)) (- 3) =
     (Inl ConvergenceError, \<lparr>f_calls = 2, df_calls = 2, loop_its = 1\<rparr>) \<and>
   bisection_cnt (\<lambda>x. fsub (fmul x x) (Fin 2)) (Fin 1) (Fin 2) (Fin (1 / 100000)) (- 3) =
     (Inl ConvergenceError, \<lparr>f_calls = 5, df_calls = 0, loop_its = 1\<rparr>) \<and>
   \<not> int (loop_its (snd (newton_raphson_cnt (\<lambda>x. fsub (fmul x x) (Fin 2)) (\<lambda>x. fmul (Fin 2) x)
     (Fin 1) (Fin (1 / 100000)) (- 3)))) \<le> - 3 + 2 \<and>
   \<not> int (loop_its (snd (bisection_cnt (\<lambda>x. fsub (fmul x x) (Fin 2)) (Fin 1) (Fin 2)
     (Fin (1 / 100000)) (- 3)))) \<le> - 3 + 2"
  by (simp add: newton_raphson_cnt_def newton_loop_cnt.simps bisection_cnt_def
        bisection_loop_cnt.simps Let_def call_f_def call_df_def enter_body_def float_eval)

subsection \<open>The bracket and the signs at its bounds\<close>















subsection \<open>A cap that is too low\<close>








end
